theory Spec2Isabelle
  imports Complex_Main "HOL-Library.Log_Nat" "HOL-Library.AList"
begin

section \<open>JavaScript numbers\<close>

text \<open>
  A JavaScript number is an IEEE 754 binary64 value. The finite ones are kept as the
  rational they denote; \<open>Finite 0\<close> stands for both zeros, which none of the operations
  used by the client (\<open>*\<close>, \<open>%\<close>, \<open>!==\<close>, \<open>Math.round\<close>, \<open>Number.isFinite\<close>)
  tells apart by anything but the sign of a zero result.
\<close>

datatype number = NaN | PosInf | NegInf | Finite rat

definition pow2 :: "int \<Rightarrow> rat" where
  "pow2 k = (if 0 \<le> k then 2 ^ nat k else 1 / 2 ^ nat (- k))"

text \<open>The binary exponent \<open>\<lfloor>log\<^sub>2 x\<rfloor>\<close> of a positive rational.\<close>

definition ilog2 :: "rat \<Rightarrow> int" where
  "ilog2 x = (case quotient_of x of (n, d) \<Rightarrow>
     (let k = bitlen n - bitlen d in if pow2 k \<le> x then k else k - 1))"

definition round_half_even :: "rat \<Rightarrow> int" where
  "round_half_even x = (let f = \<lfloor>x\<rfloor>; r = x - of_int f in
      if r < 1 / 2 then f else if 1 / 2 < r then f + 1 else if even f then f else f + 1)"

text \<open>
  Rounding of an exact result to binary64, to nearest with ties to even: 53 significant
  bits, the least exponent of the last place \<open>-1074\<close> (subnormals), overflow to infinity
  from \<open>2 ^ 1024\<close> on.
\<close>

definition fl :: "rat \<Rightarrow> number" where
  "fl x = (if x = 0 then Finite 0 else
     (let e = max (ilog2 \<bar>x\<bar> - 52) (- 1074);
          v = of_int (round_half_even (\<bar>x\<bar> / pow2 e)) * pow2 e
      in if pow2 1024 \<le> v then (if x < 0 then NegInf else PosInf)
         else Finite (if x < 0 then - v else v)))"

text \<open>The operator \<open>*\<close> on numbers.\<close>

fun js_mul :: "number \<Rightarrow> number \<Rightarrow> number" where
  "js_mul NaN _ = NaN"
| "js_mul _ NaN = NaN"
| "js_mul (Finite a) (Finite b) = fl (a * b)"
| "js_mul (Finite a) PosInf = (if a = 0 then NaN else if a < 0 then NegInf else PosInf)"
| "js_mul (Finite a) NegInf = (if a = 0 then NaN else if a < 0 then PosInf else NegInf)"
| "js_mul PosInf (Finite b) = (if b = 0 then NaN else if b < 0 then NegInf else PosInf)"
| "js_mul NegInf (Finite b) = (if b = 0 then NaN else if b < 0 then PosInf else NegInf)"
| "js_mul PosInf PosInf = PosInf"
| "js_mul PosInf NegInf = NegInf"
| "js_mul NegInf PosInf = NegInf"
| "js_mul NegInf NegInf = PosInf"

text \<open>
  The operator \<open>%\<close>: the remainder of the division truncated towards zero, which is
  exact; \<open>NaN\<close> for an infinite dividend or a zero divisor, the dividend for an infinite
  divisor.
\<close>

definition trunc :: "rat \<Rightarrow> int" where
  "trunc x = (if 0 \<le> x then \<lfloor>x\<rfloor> else \<lceil>x\<rceil>)"

fun js_rem :: "number \<Rightarrow> number \<Rightarrow> number" where
  "js_rem (Finite n) (Finite d) =
     (if d = 0 then NaN else Finite (n - d * of_int (trunc (n / d))))"
| "js_rem (Finite n) PosInf = Finite n"
| "js_rem (Finite n) NegInf = Finite n"
| "js_rem _ _ = NaN"

text \<open>The operator \<open>!==\<close> on two numbers: \<open>NaN\<close> differs from everything.\<close>

fun strict_neq :: "number \<Rightarrow> number \<Rightarrow> bool" where
  "strict_neq NaN _ = True"
| "strict_neq _ NaN = True"
| "strict_neq a b = (a \<noteq> b)"

text \<open>
  \<open>Math.round\<close>: the integer closest to the argument, the greater one of two equally
  close; \<open>NaN\<close> and the infinities are returned as they are.
\<close>

fun Math_round :: "number \<Rightarrow> number" where
  "Math_round (Finite x) = Finite (of_int \<lfloor>x + 1 / 2\<rfloor>)"
| "Math_round n = n"

section \<open>JavaScript values\<close>

text \<open>
  Strings are lists of UTF-16 code units; every literal of the client lies below 256, so
  each of its characters is one \<open>char\<close>. An object is the list of its own properties in
  insertion order.
\<close>

datatype jsval =
    VUndefined
  | VNull
  | VBool bool
  | VNum number
  | VStr string
  | VArr "jsval list"
  | VObj "(string \<times> jsval) list"

type_synonym obj = "(string \<times> jsval) list"

fun typeof :: "jsval \<Rightarrow> string" where
  "typeof VUndefined = ''undefined''"
| "typeof VNull = ''object''"
| "typeof (VBool _) = ''boolean''"
| "typeof (VNum _) = ''number''"
| "typeof (VStr _) = ''string''"
| "typeof (VArr _) = ''object''"
| "typeof (VObj _) = ''object''"

text \<open>The conversion to a boolean that \<open>if (v)\<close> and \<open>v || w\<close> apply.\<close>

fun truthy :: "jsval \<Rightarrow> bool" where
  "truthy VUndefined = False"
| "truthy VNull = False"
| "truthy (VBool b) = b"
| "truthy (VNum n) = (n \<noteq> NaN \<and> n \<noteq> Finite 0)"
| "truthy (VStr s) = (s \<noteq> [])"
| "truthy (VArr _) = True"
| "truthy (VObj _) = True"

fun Number_isFinite :: "jsval \<Rightarrow> bool" where
  "Number_isFinite (VNum (Finite _)) = True"
| "Number_isFinite _ = False"

text \<open>
  An exception is a value: the only one raised inside the client is the \<open>TypeError\<close> of
  reading a property of \<open>null\<close> or \<open>undefined\<close>, kept with the value and the property
  read.
\<close>

datatype js_error = TypeError jsval string

datatype 'a completion = Normal 'a | Throw js_error

definition field :: "obj \<Rightarrow> string \<Rightarrow> jsval" where
  "field fs p = (case map_of fs p of None \<Rightarrow> VUndefined | Some v \<Rightarrow> v)"

text \<open>
  Reading one of the properties the client reads (\<open>amount\<close>, \<open>error\<close>, \<open>status\<close>,
  \<open>message\<close>, \<open>referenceId\<close>, \<open>authorizationCode\<close>, \<open>processedAt\<close>): none of them
  is a property that a primitive value or an array has of its own.
\<close>

fun Get :: "jsval \<Rightarrow> string \<Rightarrow> jsval completion" where
  "Get VUndefined p = Throw (TypeError VUndefined p)"
| "Get VNull p = Throw (TypeError VNull p)"
| "Get (VObj fs) p = Normal (field fs p)"
| "Get _ p = Normal VUndefined"

text \<open>The decimal digits that a template literal writes for a natural number.\<close>

fun show_nat :: "nat \<Rightarrow> string" where
  "show_nat n =
     (if n < 10 then [''0123456789'' ! n]
      else show_nat (n div 10) @ [''0123456789'' ! (n mod 10)])"

declare show_nat.simps [simp del]

section \<open>The data of the client\<close>

text \<open>
  \<open>ApiResponse\<close> is an interface whose fields are all optional, and \<open>pay\<close> returns
  the body of the HTTP response as one without a check: at run time an \<open>ApiResponse\<close>
  is any value.
\<close>

type_synonym ApiResponse = jsval

text \<open>
  \<open>ProcessedResponse\<close>: a field that the object literal does not write is \<open>None\<close>; one
  it writes holds the value written, which may be \<open>undefined\<close>.
\<close>

record ProcessedResponse =
  success :: bool
  message :: "jsval option"
  reference_id :: "jsval option"
  authorization_code :: "jsval option"
  processed_at :: "jsval option"

record TestResult =
  url :: string
  response :: "ApiResponse option"
  result :: "ProcessedResponse option"
  error :: "string option"

record CuboClient =
  apiKey :: string
  base_url :: string
  headers :: "(string \<times> string) list"

text \<open>The constructor, and the default of its second parameter.\<close>

definition new_CuboClient :: "string \<Rightarrow> string \<Rightarrow> CuboClient" where
  "new_CuboClient key u =
     \<lparr>apiKey = key, base_url = u,
      headers = [(''X-API-KEY'', key), (''Content-Type'', ''application/json'')]\<rparr>"

definition default_url :: string where
  "default_url = ''https://api.cubo.com''"

section \<open>The HTTP library and the environment\<close>

text \<open>
  What \<open>axios.post(endpoint, paymentData, { headers })\<close> is called with; the payload is
  the value of \<open>paymentData\<close> at the call.
\<close>

record request =
  endpoint :: string
  payload :: jsval
  request_headers :: "(string \<times> string) list"

text \<open>
  What happens to a request on the network: the server answers with a status code and a
  body, or the request gets no answer, or it cannot be set up; the last two come with the
  message of the error.
\<close>

datatype transport_outcome =
    Answered nat jsval
  | Unanswered string
  | NotSent string

record AxiosResponse =
  status :: nat
  data :: jsval

record AxiosError =
  error_response :: "AxiosResponse option"
  error_request :: bool
  error_message :: string

datatype axios_result = Resolved AxiosResponse | Rejected AxiosError

text \<open>
  The environment of a run: \<open>JSON.parse\<close> (\<open>None\<close> where it throws \<open>SyntaxError\<close>), the
  network, which answers a request knowing the requests made before it, and the message
  the engine gives an exception.
\<close>

record env =
  JSON_parse :: "string \<Rightarrow> jsval option"
  respond :: "request list \<Rightarrow> request \<Rightarrow> transport_outcome"
  message_of :: "js_error \<Rightarrow> string"

text \<open>
  The state of a run: the objects a caller can hold a reference to, addressed by their
  index, and the requests handed to \<open>axios.post\<close> so far.
\<close>

record state =
  store :: "obj list"
  requests :: "request list"

text \<open>
  \<open>axios.post\<close> with its default \<open>validateStatus\<close>: the promise resolves for a status
  from 200 to 299 and is rejected otherwise, with an error that carries the response
  when there is one and the request when it was made.
\<close>

definition axios_post :: "env \<Rightarrow> request \<Rightarrow> state \<Rightarrow> axios_result \<times> state" where
  "axios_post env rq st =
     (let st' = st\<lparr>requests := requests st @ [rq]\<rparr> in
      case respond env (requests st) rq of
        Answered code body \<Rightarrow>
          if 200 \<le> code \<and> code < 300 then (Resolved \<lparr>status = code, data = body\<rparr>, st')
          else (Rejected \<lparr>error_response = Some \<lparr>status = code, data = body\<rparr>,
                  error_request = True,
                  error_message = ''Request failed with status code '' @ show_nat code\<rparr>, st')
      | Unanswered m \<Rightarrow>
          (Rejected \<lparr>error_response = None, error_request = True, error_message = m\<rparr>, st')
      | NotSent m \<Rightarrow>
          (Rejected \<lparr>error_response = None, error_request = False, error_message = m\<rparr>, st'))"

section \<open>The client\<close>

definition convertCentv :: "number \<Rightarrow> number" where
  "convertCentv amount = Math_round (js_mul amount (Finite 100))"

text \<open>
  The local variable \<open>paymentData\<close> holds a reference to an object of the store, or a
  value that is not an object (\<open>JSON.parse\<close> may return one).
\<close>

datatype binding = Ref nat | Val jsval

text \<open>
  The object behind a reference. A reference that a caller holds is below the length of
  the store; no run reaches the other case.
\<close>

definition deref :: "state \<Rightarrow> nat \<Rightarrow> obj" where
  "deref st a = (if a < length (store st) then store st ! a else [])"

definition alloc :: "obj \<Rightarrow> state \<Rightarrow> nat \<times> state" where
  "alloc fs st = (length (store st), st\<lparr>store := store st @ [fs]\<rparr>)"

text \<open>The argument of \<open>pay\<close>: a string, or a reference to the caller's object.\<close>

datatype pay_input = JsonText string | ObjectRef nat

text \<open>
  The first step of \<open>pay\<close>: \<open>JSON.parse(data)\<close> for a string (\<open>None\<close> when it throws),
  the spread \<open>{ ...data }\<close> for an object. Both make a new object.
\<close>

definition read_input :: "env \<Rightarrow> pay_input \<Rightarrow> state \<Rightarrow> (binding \<times> state) option" where
  "read_input env input st =
     (case input of
        JsonText s \<Rightarrow>
          (case JSON_parse env s of
             None \<Rightarrow> None
           | Some (VObj fs) \<Rightarrow> (case alloc fs st of (p, st') \<Rightarrow> Some (Ref p, st'))
           | Some v \<Rightarrow> Some (Val v, st))
      | ObjectRef a \<Rightarrow> (case alloc (deref st a) st of (p, st') \<Rightarrow> Some (Ref p, st')))"

text \<open>
  The second step on the properties of the object: \<open>amount\<close> is replaced when it is
  defined, a number, finite, and \<open>amount % 1 !== 0\<close>. Under the three tests the
  amount is a number, which the \<open>case\<close> takes out of the value.
\<close>

definition auto_detect :: "obj \<Rightarrow> obj" where
  "auto_detect fs =
     (let amount = field fs ''amount'' in
      if amount \<noteq> VUndefined \<and> typeof amount = ''number'' \<and> Number_isFinite amount then
        (case amount of
           VNum n \<Rightarrow>
             if strict_neq (js_rem n (Finite 1)) (Finite 0)
             then AList.update ''amount'' (VNum (convertCentv n)) fs
             else fs
         | _ \<Rightarrow> fs)
      else fs)"

text \<open>
  The second step on \<open>paymentData\<close>: the read of \<open>paymentData.amount\<close> throws for
  \<open>null\<close>, gives \<open>undefined\<close> for another value that is not an object, and the write goes
  to the object that \<open>paymentData\<close> refers to.
\<close>

definition convert_amount :: "binding \<Rightarrow> state \<Rightarrow> state completion" where
  "convert_amount paymentData st =
     (case paymentData of
        Val v \<Rightarrow> (case Get v ''amount'' of Throw e \<Rightarrow> Throw e | Normal _ \<Rightarrow> Normal st)
      | Ref p \<Rightarrow> Normal (st\<lparr>store := (store st)[p := auto_detect (deref st p)]\<rparr>))"

definition value_of :: "binding \<Rightarrow> state \<Rightarrow> jsval" where
  "value_of paymentData st = (case paymentData of Val v \<Rightarrow> v | Ref p \<Rightarrow> VObj (deref st p))"

text \<open>The third step: the request, and the \<open>catch\<close> around it.\<close>

definition post_payment ::
  "env \<Rightarrow> CuboClient \<Rightarrow> binding \<Rightarrow> state \<Rightarrow> ApiResponse \<times> state" where
  "post_payment env this paymentData st =
     (case axios_post env
             \<lparr>endpoint = base_url this @ ''/api/v1/transactions'',
              payload = value_of paymentData st,
              request_headers = headers this\<rparr> st of
        (Resolved r, st') \<Rightarrow> (data r, st')
      | (Rejected axiosError, st') \<Rightarrow>
          (case error_response axiosError of
             Some r \<Rightarrow>
               (VObj [(''error'', VStr (''Error del servidor: '' @ show_nat (status r))),
                      (''details'', data r)], st')
           | None \<Rightarrow>
               if error_request axiosError
               then (VObj [(''error'',
                       VStr (''No se recibi'' @ [CHR 0xF3] @ '' respuesta del servidor''))], st')
               else (VObj [(''error'',
                       VStr (''Error de conexi'' @ [CHR 0xF3] @ ''n: ''
                             @ error_message axiosError))], st')))"

definition pay ::
  "env \<Rightarrow> CuboClient \<Rightarrow> pay_input \<Rightarrow> state \<Rightarrow> ApiResponse completion \<times> state" where
  "pay env this input st =
     (case read_input env input st of
        None \<Rightarrow>
          (Normal (VObj [(''error'',
             VStr (''Los datos proporcionados no son un JSON v'' @ [CHR 0xE1] @ ''lido''))]), st)
      | Some (paymentData, st1) \<Rightarrow>
          (case convert_amount paymentData st1 of
             Throw e \<Rightarrow> (Throw e, st1)
           | Normal st2 \<Rightarrow>
               (case post_payment env this paymentData st2 of
                  (r, st3) \<Rightarrow> (Normal r, st3))))"

definition handleResponse :: "ApiResponse \<Rightarrow> ProcessedResponse completion" where
  "handleResponse resp =
     (case Get resp ''error'' of
        Throw e \<Rightarrow> Throw e
      | Normal err \<Rightarrow>
          if truthy err then
            Normal \<lparr>success = False, message = Some err, reference_id = None,
                    authorization_code = None, processed_at = None\<rparr>
          else
            (case Get resp ''status'' of
               Throw e \<Rightarrow> Throw e
             | Normal s \<Rightarrow>
                 if s = VStr ''SUCCEEDED'' then
                   (case (Get resp ''referenceId'', Get resp ''authorizationCode'',
                          Get resp ''processedAt'') of
                      (Normal r, Normal a, Normal p) \<Rightarrow>
                        Normal \<lparr>success = True, message = None, reference_id = Some r,
                                authorization_code = Some a, processed_at = Some p\<rparr>
                    | (Throw e, _, _) \<Rightarrow> Throw e
                    | (_, Throw e, _) \<Rightarrow> Throw e
                    | (_, _, Throw e) \<Rightarrow> Throw e)
                 else
                   (case Get resp ''message'' of
                      Throw e \<Rightarrow> Throw e
                    | Normal m \<Rightarrow>
                        Normal \<lparr>success = False,
                                message = Some (if truthy m then m else VStr ''Error desconocido''),
                                reference_id = None, authorization_code = None,
                                processed_at = None\<rparr>)))"

text \<open>
  One round of the loop of \<open>testMultipleUrls\<close>, without the pause that ends it: a new
  client for the URL, \<open>pay\<close> and \<open>handleResponse\<close> inside \<open>try\<close>, and the entry pushed
  by the \<open>try\<close> block or by the \<open>catch\<close> block.
\<close>

definition probe :: "env \<Rightarrow> string \<Rightarrow> nat \<Rightarrow> string \<Rightarrow> state \<Rightarrow> TestResult \<times> state" where
  "probe env key dat u st =
     (case pay env (new_CuboClient key u) (ObjectRef dat) st of
        (Throw e, st') \<Rightarrow>
          (\<lparr>url = u, response = None, result = None, error = Some (message_of env e)\<rparr>, st')
      | (Normal r, st') \<Rightarrow>
          (case handleResponse r of
             Throw e \<Rightarrow>
               (\<lparr>url = u, response = None, result = None, error = Some (message_of env e)\<rparr>, st')
           | Normal res \<Rightarrow>
               (\<lparr>url = u, response = Some r, result = Some res, error = None\<rparr>, st')))"

fun probe_all ::
  "env \<Rightarrow> string \<Rightarrow> nat \<Rightarrow> string list \<Rightarrow> TestResult list \<Rightarrow> state \<Rightarrow> TestResult list \<times> state" where
  "probe_all env key dat [] results st = (results, st)"
| "probe_all env key dat (u # urls) results st =
     (case probe env key dat u st of
        (entry, st') \<Rightarrow> probe_all env key dat urls (results @ [entry]) st')"

definition testMultipleUrls ::
  "env \<Rightarrow> CuboClient \<Rightarrow> nat \<Rightarrow> string list \<Rightarrow> state \<Rightarrow> TestResult list \<times> state" where
  "testMultipleUrls env this dat urls st = probe_all env (apiKey this) dat urls [] st"

section \<open>The example driver and a sample environment\<close>

text \<open>The API key, the URLs and the payment data of the example driver \<open>test.ts\<close>.\<close>

definition test_apiKey :: string where
  "test_apiKey = ''93aab3a749aa8da9''"

definition urlsToTry :: "string list" where
  "urlsToTry =
     [''https://api.cubo.com'', ''https://api.cubopago.com'', ''https://cubopago.com'',
      ''https://api-sandbox.cubopago.com'', ''https://sandbox.cubopago.com'']"

definition test_paymentData :: obj where
  "test_paymentData =
     [(''clientName'', VStr ''John Doe''),
      (''clientEmail'', VStr ''cliente@ejemplo.com''),
      (''clientPhone'', VStr ''+50322577777''),
      (''description'', VStr ''Test API''),
      (''amount'', VNum (Finite 100)),
      (''cardHolder'', VStr ''John Doe''),
      (''cardNumber'', VStr ''4000000000000416''),
      (''cvv'', VStr ''123''),
      (''month'', VStr ''12''),
      (''year'', VStr ''26'')]"

text \<open>
  An environment to run the client in: \<open>JSON.parse\<close> on three texts (every other text of
  the sample is not JSON), a network on which each host of \<open>urlsToTry\<close> behaves in its
  own way, and a message for the \<open>TypeError\<close>.
\<close>

definition sample_parse :: "string \<Rightarrow> jsval option" where
  "sample_parse s =
     (if s = ''null'' then Some VNull
      else if s = ''{}'' then Some (VObj [])
      else if s = ''10.5'' then Some (VNum (Finite (21 / 2)))
      else None)"

definition sample_network :: "request list \<Rightarrow> request \<Rightarrow> transport_outcome" where
  "sample_network earlier rq =
     (if endpoint rq = ''https://api.cubo.com/api/v1/transactions'' then
        Answered 500 (VObj [(''message'', VStr ''Internal Server Error'')])
      else if endpoint rq = ''https://api.cubopago.com/api/v1/transactions'' then
        Answered 200 VNull
      else if endpoint rq = ''https://cubopago.com/api/v1/transactions'' then
        Answered 200 (VObj [(''status'', VStr ''SUCCEEDED''), (''referenceId'', VStr ''r1''),
          (''authorizationCode'', VStr ''a1''), (''processedAt'', VStr ''t1'')])
      else if endpoint rq = ''https://api-sandbox.cubopago.com/api/v1/transactions'' then
        Unanswered ''timeout of 1000ms exceeded''
      else NotSent ''Invalid URL'')"

definition sample_env :: env where
  "sample_env =
     \<lparr>JSON_parse = sample_parse, respond = sample_network,
      message_of = (\<lambda>e. case e of TypeError v p \<Rightarrow> ''Cannot read properties of null'')\<rparr>"

section \<open>Rounding to binary64\<close>

text \<open>Powers of two with an integer exponent.\<close>

lemma pow2_powi: "pow2 k = 2 powi k"
  by (simp add: pow2_def power_int_def power_one_over)

lemma pow2_pos: "0 < pow2 k"
  by (simp add: pow2_powi)

lemma pow2_add: "pow2 (a + b) = pow2 a * pow2 b"
  by (simp add: pow2_powi power_int_add)

lemma pow2_mono: "a \<le> b \<Longrightarrow> pow2 a \<le> pow2 b"
  by (simp add: pow2_powi power_int_increasing)

lemma pow2_less_cancel: "pow2 a < pow2 b \<Longrightarrow> a < b"
  using pow2_mono [of b a] by (cases "a < b") auto

lemma pow2_of_nat: "0 \<le> k \<Longrightarrow> pow2 k = of_int (2 ^ nat k)"
  by (simp add: pow2_def)

text \<open>\<open>ilog2\<close> is the binary exponent: \<open>2 ^ ilog2 x \<le> x < 2 ^ (ilog2 x + 1)\<close>.\<close>

lemma ilog2_bounds:
  assumes "0 < x"
  shows "pow2 (ilog2 x) \<le> x \<and> x < pow2 (ilog2 x + 1)"
proof -
  obtain n d where q: "quotient_of x = (n, d)"
    by (cases "quotient_of x")
  have d: "0 < d" and x: "x = of_int n / of_int d"
    using q by (auto simp: quotient_of_denom_pos quotient_of_div)
  have n: "0 < n"
    using assms d x by (simp add: zero_less_divide_iff)
  have bn: "1 \<le> bitlen n" and bd: "1 \<le> bitlen d"
    using n d by (simp_all add: bitlen_alt_def)
  have n_lo: "pow2 (bitlen n - 1) \<le> of_int n" and n_hi: "of_int n < pow2 (bitlen n)"
    using bitlen_bounds [OF n] bn
    by (simp_all add: pow2_of_nat del: of_int_power)
  have d_lo: "pow2 (bitlen d - 1) \<le> of_int d" and d_hi: "of_int d < pow2 (bitlen d)"
    using bitlen_bounds [OF d] bd
    by (simp_all add: pow2_of_nat del: of_int_power)
  let ?k = "bitlen n - bitlen d"
  have hi: "x < pow2 (?k + 1)"
  proof -
    have "of_int n < pow2 (?k + 1) * pow2 (bitlen d - 1)"
      using n_hi by (simp flip: pow2_add)
    also have "\<dots> \<le> pow2 (?k + 1) * of_int d"
      using d_lo pow2_pos [of "?k + 1"] by simp
    finally show ?thesis
      using d by (simp add: x pos_divide_less_eq)
  qed
  have lo: "pow2 (?k - 1) < x"
  proof -
    have "pow2 (?k - 1) * of_int d < pow2 (?k - 1) * pow2 (bitlen d)"
      using d_hi pow2_pos [of "?k - 1"] by simp
    also have "\<dots> = pow2 (bitlen n - 1)"
      by (simp flip: pow2_add)
    also have "\<dots> \<le> of_int n"
      by (rule n_lo)
    finally show ?thesis
      using d by (simp add: x pos_less_divide_eq)
  qed
  show ?thesis
    using hi lo by (simp add: ilog2_def q Let_def)
qed

text \<open>
  Rounding moves a value by half a unit of the last place at most, so a product below
  \<open>2 ^ 1023\<close> does not overflow.
\<close>

lemma round_half_even_bound: "\<bar>of_int (round_half_even y) - y\<bar> \<le> 1 / 2"
proof -
  have "of_int \<lfloor>y\<rfloor> \<le> y" and "y < of_int \<lfloor>y\<rfloor> + 1"
    by linarith+
  then show ?thesis
    unfolding round_half_even_def Let_def by (simp add: abs_le_iff)
qed

lemma fl_finite:
  assumes "\<bar>x\<bar> < pow2 1023"
  shows "\<exists>r. fl x = Finite r"
proof (cases "x = 0")
  case True
  then show ?thesis by (simp add: fl_def)
next
  case False
  define e where "e = max (ilog2 \<bar>x\<bar> - 52) (- 1074)"
  define v where "v = of_int (round_half_even (\<bar>x\<bar> / pow2 e)) * pow2 e"
  have pos: "0 < \<bar>x\<bar>"
    using False by simp
  have "pow2 (ilog2 \<bar>x\<bar>) < pow2 1023"
    using ilog2_bounds [OF pos] assms by simp
  then have "ilog2 \<bar>x\<bar> < 1023"
    by (rule pow2_less_cancel)
  then have e: "e \<le> 970"
    by (simp add: e_def)
  have "of_int (round_half_even (\<bar>x\<bar> / pow2 e)) \<le> \<bar>x\<bar> / pow2 e + 1 / 2"
    using round_half_even_bound [of "\<bar>x\<bar> / pow2 e"] by linarith
  then have "v \<le> (\<bar>x\<bar> / pow2 e + 1 / 2) * pow2 e"
    unfolding v_def using pow2_pos [of e] by (simp only: mult_le_cancel_right_pos)
  also have "\<dots> = \<bar>x\<bar> + pow2 e / 2"
    using pow2_pos [of e] by (simp add: field_simps)
  also have "\<dots> < pow2 1023 + pow2 970"
    using assms pow2_mono [OF e] pow2_pos [of e] by linarith
  also have "\<dots> \<le> pow2 1024"
  proof -
    have "pow2 1 = 2"
      by (simp add: pow2_def)
    then have "pow2 1024 = 2 * pow2 1023"
      using pow2_add [of 1023 1] by simp
    then show ?thesis
      using pow2_mono [of 970 1023] by simp
  qed
  finally have "\<not> pow2 1024 \<le> v"
    by simp
  then show ?thesis
    using False by (simp add: fl_def Let_def flip: e_def v_def)
qed

text \<open>
  A binary64 value that is not an integer is below \<open>2 ^ 52\<close>, so its product with 100
  is finite and \<open>convertCentv\<close> gives an integer.
\<close>

lemma double_fraction_small:
  assumes "fl q = Finite q" and "q \<notin> \<int>"
  shows "\<bar>q\<bar> < pow2 52"
proof -
  have nz: "q \<noteq> 0"
    using assms(2) by auto
  define e where "e = max (ilog2 \<bar>q\<bar> - 52) (- 1074)"
  define m where "m = round_half_even (\<bar>q\<bar> / pow2 e)"
  have "fl q = Finite (if q < 0 then - (of_int m * pow2 e) else of_int m * pow2 e)"
    using assms(1) nz by (auto simp: fl_def Let_def m_def e_def split: if_splits)
  then have q: "q = (if q < 0 then - (of_int m * pow2 e) else of_int m * pow2 e)"
    using assms(1) by simp
  have "e < 0"
  proof (rule ccontr)
    assume "\<not> e < 0"
    then have "pow2 e \<in> \<int>"
      by (simp add: pow2_def)
    then have "of_int m * pow2 e \<in> \<int>"
      by simp
    then have "q \<in> \<int>"
      using q by (metis Ints_minus)
    with assms(2) show False ..
  qed
  then have "ilog2 \<bar>q\<bar> + 1 \<le> 52"
    by (simp add: e_def)
  then have "pow2 (ilog2 \<bar>q\<bar> + 1) \<le> pow2 52"
    by (rule pow2_mono)
  moreover have "\<bar>q\<bar> < pow2 (ilog2 \<bar>q\<bar> + 1)"
    using ilog2_bounds [of "\<bar>q\<bar>"] nz by simp
  ultimately show ?thesis
    by simp
qed

lemma convertCentv_double_fraction:
  assumes "fl q = Finite q" and "q \<notin> \<int>"
  shows "\<exists>n::int. convertCentv (Finite q) = Finite (of_int n)"
proof -
  have "pow2 7 = 128"
    by (simp add: pow2_def)
  then have "\<bar>q * 100\<bar> < pow2 52 * pow2 7"
    using double_fraction_small [OF assms] by (simp add: abs_mult)
  also have "\<dots> \<le> pow2 1023"
    using pow2_mono [of 59 1023] by (simp flip: pow2_add)
  finally obtain r where "fl (q * 100) = Finite r"
    using fl_finite by blast
  then show ?thesis
    by (auto simp: convertCentv_def)
qed

text \<open>\<open>Math.round\<close> gives an integer that no other integer is closer than.\<close>

lemma Math_round_nearest:
  "\<bar>of_int \<lfloor>p + 1 / 2\<rfloor> - p\<bar> \<le> 1 / 2 \<and> (\<forall>k::int. \<bar>of_int \<lfloor>p + 1 / 2\<rfloor> - p\<bar> \<le> \<bar>of_int k - p\<bar>)"
  for p :: rat
proof -
  let ?n = "\<lfloor>p + 1 / 2\<rfloor>"
  have lo: "of_int ?n \<le> p + 1 / 2" and hi: "p + 1 / 2 < of_int ?n + 1"
    by linarith+
  have near: "\<bar>of_int ?n - p\<bar> \<le> 1 / 2"
    using lo hi by linarith
  have "\<bar>of_int ?n - p\<bar> \<le> \<bar>of_int k - p\<bar>" for k :: int
  proof (cases "k = ?n")
    case True
    then show ?thesis by simp
  next
    case False
    then consider "k \<le> ?n - 1" | "?n + 1 \<le> k"
      by linarith
    then show ?thesis
    proof cases
      case 1
      then have "(of_int k :: rat) \<le> of_int ?n - 1"
        by (metis of_int_1 of_int_diff of_int_le_iff)
      then show ?thesis
        using lo hi by linarith
    next
      case 2
      then have "(of_int ?n :: rat) + 1 \<le> of_int k"
        by (metis of_int_1 of_int_add of_int_le_iff)
      then show ?thesis
        using lo hi by linarith
    qed
  qed
  with near show ?thesis
    by blast
qed

text \<open>
  The number that the literal \<open>19.999\<close> denotes, and the conversions of it and of
  \<open>1.00\<close>.
\<close>

lemma literal_19_999: "fl (19999 / 1000) = Finite (5629218059236409 / 281474976710656)"
  by code_simp

lemma convertCentv_19_999: "convertCentv (Finite (5629218059236409 / 281474976710656)) = Finite 2000"
  by code_simp

lemma convertCentv_1: "convertCentv (Finite 1) = Finite 100"
  by code_simp

text \<open>
  C4: for every number \<open>a\<close>, \<open>convertCentv\<close> returns \<open>Math.round(a * 100)\<close>, where
  \<open>a * 100\<close> is the binary64 product: when the product is finite the result is an
  integer at distance at most one half from it, and no integer is closer; \<open>NaN\<close> and the
  infinities are returned as they are. In particular \<open>1.00\<close> is mapped to 100 and
  \<open>19.999\<close> to 2000.
\<close>

theorem convertCentv_rounds:
  "convertCentv a = Math_round (js_mul a (Finite 100))
   \<and> (case js_mul a (Finite 100) of
         Finite p \<Rightarrow>
           convertCentv a = Finite (of_int \<lfloor>p + 1 / 2\<rfloor>)
           \<and> \<bar>of_int \<lfloor>p + 1 / 2\<rfloor> - p\<bar> \<le> 1 / 2
           \<and> (\<forall>k::int. \<bar>of_int \<lfloor>p + 1 / 2\<rfloor> - p\<bar> \<le> \<bar>of_int k - p\<bar>)
       | other \<Rightarrow> convertCentv a = other)
   \<and> convertCentv (Finite 1) = Finite 100
   \<and> fl (19999 / 1000) = Finite (5629218059236409 / 281474976710656)
   \<and> convertCentv (Finite (5629218059236409 / 281474976710656)) = Finite 2000"
proof -
  have "case js_mul a (Finite 100) of
         Finite p \<Rightarrow>
           convertCentv a = Finite (of_int \<lfloor>p + 1 / 2\<rfloor>)
           \<and> \<bar>of_int \<lfloor>p + 1 / 2\<rfloor> - p\<bar> \<le> 1 / 2
           \<and> (\<forall>k::int. \<bar>of_int \<lfloor>p + 1 / 2\<rfloor> - p\<bar> \<le> \<bar>of_int k - p\<bar>)
       | other \<Rightarrow> convertCentv a = other"
    using Math_round_nearest
    by (cases "js_mul a (Finite 100)") (simp_all add: convertCentv_def)
  then show ?thesis
    by (simp add: convertCentv_def [of a] literal_19_999 convertCentv_19_999 convertCentv_1)
qed

theorem convertCentv_rounds_witness:
  "convertCentv (Finite (21 / 2)) = Finite 1050"
proof -
  have "js_mul (Finite (21 / 2)) (Finite 100) = Finite 1050"
    by code_simp
  moreover have "\<lfloor>(1050::rat) + 1 / 2\<rfloor> = 1050"
    by (rule floor_unique) simp_all
  ultimately show ?thesis
    using convertCentv_rounds [of "Finite (21 / 2)"] by simp
qed

section \<open>The normalisation of responses\<close>

text \<open>
  C1, as the code has it: for every response whose \<open>error\<close> field holds a truthy value
  (for a string: a non-empty one), \<open>handleResponse\<close> returns
  \<open>{ success: false, message: response.error }\<close> whatever the other fields are, also
  when \<open>status\<close> is \<open>"SUCCEEDED"\<close>: the test of \<open>error\<close> comes first. An \<open>error\<close>
  field that holds a falsy value, such as the empty string, does not trigger this rule:
  the result is then the one of the rules on \<open>status\<close> and \<open>message\<close>, as for a
  response without the field.
\<close>

theorem handleResponse_error_first:
  assumes "map_of fs ''error'' = Some err"
  shows "handleResponse (VObj fs) =
           (if truthy err then
              Normal \<lparr>success = False, message = Some err, reference_id = None,
                      authorization_code = None, processed_at = None\<rparr>
            else if field fs ''status'' = VStr ''SUCCEEDED'' then
              Normal \<lparr>success = True, message = None,
                      reference_id = Some (field fs ''referenceId''),
                      authorization_code = Some (field fs ''authorizationCode''),
                      processed_at = Some (field fs ''processedAt'')\<rparr>
            else
              Normal \<lparr>success = False,
                      message = Some (if truthy (field fs ''message'') then field fs ''message''
                                      else VStr ''Error desconocido''),
                      reference_id = None, authorization_code = None, processed_at = None\<rparr>)"
  using assms by (simp add: handleResponse_def field_def)

theorem handleResponse_error_first_witness:
  "handleResponse (VObj [(''status'', VStr ''SUCCEEDED''), (''error'', VStr ''x'')]) =
     Normal \<lparr>success = False, message = Some (VStr ''x''), reference_id = None,
             authorization_code = None, processed_at = None\<rparr>
   \<and> handleResponse (VObj [(''status'', VStr ''FAILED''), (''error'', VNum (Finite 0)),
        (''message'', VStr ''declined'')]) =
     Normal \<lparr>success = False, message = Some (VStr ''declined''), reference_id = None,
             authorization_code = None, processed_at = None\<rparr>"
  using handleResponse_error_first
    [of "[(''status'', VStr ''SUCCEEDED''), (''error'', VStr ''x'')]" "VStr ''x''"]
    handleResponse_error_first
    [of "[(''status'', VStr ''FAILED''), (''error'', VNum (Finite 0)),
          (''message'', VStr ''declined'')]" "VNum (Finite 0)"]
  by (simp add: field_def)

text \<open>
  C1 as stated fails for an \<open>error\<close> field that is set to the empty string: \<open>if
  (response.error)\<close> is false for it, and with \<open>status: "SUCCEEDED"\<close> the result is the
  successful one.
\<close>

theorem handleResponse_empty_error_counterexample:
  "handleResponse (VObj [(''error'', VStr ''''), (''status'', VStr ''SUCCEEDED'')]) =
     Normal \<lparr>success = True, message = None, reference_id = Some VUndefined,
             authorization_code = Some VUndefined, processed_at = Some VUndefined\<rparr>
   \<and> handleResponse (VObj [(''error'', VStr ''''), (''status'', VStr ''SUCCEEDED'')]) \<noteq>
     Normal \<lparr>success = False, message = Some (VStr ''''), reference_id = None,
             authorization_code = None, processed_at = None\<rparr>"
  by (simp add: handleResponse_def field_def)

text \<open>
  C2: for every response without an \<open>error\<close> field whose \<open>status\<close> is the string
  \<open>"SUCCEEDED"\<close>, \<open>handleResponse\<close> returns \<open>success: true\<close> with \<open>reference_id\<close>,
  \<open>authorization_code\<close> and \<open>processed_at\<close> read from \<open>referenceId\<close>,
  \<open>authorizationCode\<close> and \<open>processedAt\<close>, and no \<open>message\<close> field.
\<close>

theorem handleResponse_succeeded:
  assumes "map_of fs ''error'' = None" and "map_of fs ''status'' = Some (VStr ''SUCCEEDED'')"
  shows "handleResponse (VObj fs) =
           Normal \<lparr>success = True, message = None,
                   reference_id = Some (field fs ''referenceId''),
                   authorization_code = Some (field fs ''authorizationCode''),
                   processed_at = Some (field fs ''processedAt'')\<rparr>"
  using assms by (simp add: handleResponse_def field_def)

theorem handleResponse_succeeded_witness:
  "handleResponse (VObj [(''status'', VStr ''SUCCEEDED''), (''referenceId'', VStr ''r1''),
      (''authorizationCode'', VStr ''a1''), (''processedAt'', VStr ''t1'')]) =
     Normal \<lparr>success = True, message = None, reference_id = Some (VStr ''r1''),
             authorization_code = Some (VStr ''a1''), processed_at = Some (VStr ''t1'')\<rparr>"
  using handleResponse_succeeded
    [of "[(''status'', VStr ''SUCCEEDED''), (''referenceId'', VStr ''r1''),
      (''authorizationCode'', VStr ''a1''), (''processedAt'', VStr ''t1'')]"]
  by (simp add: field_def)

text \<open>
  C3, as the code has it: for every response without an \<open>error\<close> field whose \<open>status\<close>
  is not \<open>"SUCCEEDED"\<close>, \<open>handleResponse\<close> returns
  \<open>{ success: false, message: response.message || "Error desconocido" }\<close>: the message
  of the response when it is truthy, the string \<open>"Error desconocido"\<close> when it is absent
  or empty.
\<close>

theorem handleResponse_failed:
  assumes "map_of fs ''error'' = None" and "map_of fs ''status'' \<noteq> Some (VStr ''SUCCEEDED'')"
  shows "handleResponse (VObj fs) =
           Normal \<lparr>success = False,
                   message = Some (if truthy (field fs ''message'') then field fs ''message''
                                   else VStr ''Error desconocido''),
                   reference_id = None, authorization_code = None, processed_at = None\<rparr>"
  using assms by (auto simp add: handleResponse_def field_def split: option.splits)

theorem handleResponse_failed_witness:
  "handleResponse (VObj [(''status'', VStr ''FAILED''), (''message'', VStr ''declined'')]) =
     Normal \<lparr>success = False, message = Some (VStr ''declined''), reference_id = None,
             authorization_code = None, processed_at = None\<rparr>"
  using handleResponse_failed [of "[(''status'', VStr ''FAILED''), (''message'', VStr ''declined'')]"]
  by (simp add: field_def)

text \<open>
  C3 as stated fails: without a message the string returned is \<open>"Error desconocido"\<close>,
  not \<open>"Unknown error"\<close>; and an empty message, which \<open>??\<close> would keep, is replaced too.
\<close>

theorem handleResponse_unknown_error_counterexample:
  "handleResponse (VObj [(''status'', VStr ''FAILED'')]) =
     Normal \<lparr>success = False, message = Some (VStr ''Error desconocido''), reference_id = None,
             authorization_code = None, processed_at = None\<rparr>
   \<and> handleResponse (VObj [(''status'', VStr ''FAILED'')]) \<noteq>
     Normal \<lparr>success = False, message = Some (VStr ''Unknown error''), reference_id = None,
             authorization_code = None, processed_at = None\<rparr>
   \<and> handleResponse (VObj [(''status'', VStr ''FAILED''), (''message'', VStr '''')]) \<noteq>
     Normal \<lparr>success = False, message = Some (VStr ''''), reference_id = None,
             authorization_code = None, processed_at = None\<rparr>"
  by (simp add: handleResponse_def field_def)

section \<open>Payments\<close>

text \<open>
  The test \<open>amount % 1 !== 0\<close> on a finite amount says that it is not an integer; so the
  second step of \<open>pay\<close> either leaves the properties as they are or replaces a finite
  amount that is not an integer.
\<close>

lemma integral_iff: "strict_neq (js_rem (Finite q) (Finite 1)) (Finite 0) \<longleftrightarrow> q \<notin> \<int>"
proof -
  have "q = of_int (trunc q) \<longleftrightarrow> q \<in> \<int>"
    by (auto simp: trunc_def Ints_def split: if_splits)
  then show ?thesis
    by auto
qed

lemma auto_detect_fractional:
  "field fs ''amount'' = VNum (Finite q) \<Longrightarrow> q \<notin> \<int> \<Longrightarrow>
     auto_detect fs = AList.update ''amount'' (VNum (convertCentv (Finite q))) fs"
  using integral_iff [of q] by (simp add: auto_detect_def Let_def del: js_rem.simps strict_neq.simps)

lemma auto_detect_integral:
  "field fs ''amount'' = VNum (Finite q) \<Longrightarrow> q \<in> \<int> \<Longrightarrow> auto_detect fs = fs"
  using integral_iff [of q] by (simp add: auto_detect_def Let_def del: js_rem.simps strict_neq.simps)

lemma auto_detect_cases:
  "auto_detect fs = fs \<or>
   (\<exists>q. field fs ''amount'' = VNum (Finite q) \<and> q \<notin> \<int> \<and>
      auto_detect fs = AList.update ''amount'' (VNum (convertCentv (Finite q))) fs)"
proof (cases "field fs ''amount''")
  case (VNum n)
  then show ?thesis
    using integral_iff
    by (cases n) (auto simp add: auto_detect_def Let_def simp del: js_rem.simps strict_neq.simps)
qed (simp_all add: auto_detect_def Let_def)

lemma auto_detect_other_fields: "k \<noteq> ''amount'' \<Longrightarrow> map_of (auto_detect fs) k = map_of fs k"
  using auto_detect_cases [of fs] by (auto simp: update_conv')

lemma auto_detect_keys: "map fst (auto_detect fs) = map fst fs"
proof -
  have "field fs ''amount'' = VNum n \<Longrightarrow> ''amount'' \<in> fst ` set fs" for n
    by (auto simp: field_def split: option.splits dest!: map_of_SomeD intro: rev_image_eqI)
  then show ?thesis
    using auto_detect_cases [of fs] by (auto simp: update_keys)
qed

text \<open>The second step on two sample objects; 10.5 is a binary64 value.\<close>

lemma auto_detect_dollars:
  "auto_detect [(''description'', VStr ''Test API''), (''amount'', VNum (Finite (21 / 2)))] =
     [(''description'', VStr ''Test API''), (''amount'', VNum (Finite 1050))]"
  by code_simp

lemma auto_detect_test_paymentData: "auto_detect test_paymentData = test_paymentData"
  by code_simp

lemma double_10_5: "fl (21 / 2) = Finite (21 / 2)"
  by code_simp

text \<open>After a replacement the amount is an integer or not finite, so it stays.\<close>

lemma auto_detect_settled:
  "auto_detect (AList.update ''amount'' (VNum (convertCentv (Finite q))) fs) =
     AList.update ''amount'' (VNum (convertCentv (Finite q))) fs"
proof (cases "fl (q * 100)")
  case (Finite r)
  have "field (AList.update ''amount'' (VNum (convertCentv (Finite q))) fs) ''amount'' =
          VNum (Finite (of_int \<lfloor>r + 1 / 2\<rfloor>))"
    using Finite by (simp add: field_def update_conv' convertCentv_def)
  then show ?thesis
    by (rule auto_detect_integral) simp
qed (simp_all add: auto_detect_def Let_def field_def update_conv' convertCentv_def)

text \<open>
  C10: the amount auto-detection of \<open>pay\<close> is idempotent: applied to its own result it
  changes nothing; and for every finite amount that is a binary64 value, the amount after
  the step is an integer.
\<close>

theorem auto_detect_idempotent:
  "auto_detect (auto_detect fs) = auto_detect fs
   \<and> (\<forall>q. field fs ''amount'' = VNum (Finite q) \<and> fl q = Finite q \<longrightarrow>
         (\<exists>n::int. field (auto_detect fs) ''amount'' = VNum (Finite (of_int n))))"
proof -
  have "auto_detect (auto_detect fs) = auto_detect fs"
    using auto_detect_cases [of fs] auto_detect_settled by auto
  moreover have "\<exists>n::int. field (auto_detect fs) ''amount'' = VNum (Finite (of_int n))"
    if amount: "field fs ''amount'' = VNum (Finite q)" and double: "fl q = Finite q" for q
  proof (cases "q \<in> \<int>")
    case True
    then obtain n :: int where "q = of_int n"
      by (auto simp: Ints_def)
    with amount True show ?thesis
      using auto_detect_integral [of fs q] by auto
  next
    case False
    obtain n :: int where "convertCentv (Finite q) = Finite (of_int n)"
      using convertCentv_double_fraction [OF double False] by blast
    with amount False show ?thesis
      using auto_detect_fractional [of fs q] by (auto simp: field_def update_conv')
  qed
  ultimately show ?thesis
    by blast
qed

theorem auto_detect_idempotent_witness:
  "auto_detect (auto_detect
      [(''description'', VStr ''Test API''), (''amount'', VNum (Finite (21 / 2)))]) =
     [(''description'', VStr ''Test API''), (''amount'', VNum (Finite 1050))]
   \<and> (\<exists>n::int. field (auto_detect
      [(''description'', VStr ''Test API''), (''amount'', VNum (Finite (21 / 2)))]) ''amount'' =
        VNum (Finite (of_int n)))"
  using auto_detect_idempotent
    [of "[(''description'', VStr ''Test API''), (''amount'', VNum (Finite (21 / 2)))]"]
    double_10_5
  by (simp add: auto_detect_dollars field_def)

text \<open>
  \<open>pay\<close> on an object, and on a string that decodes to an object; the state and the
  request of the third step.
\<close>

lemma pay_ObjectRef:
  "pay env this (ObjectRef a) st =
     (Normal (fst (post_payment env this (Ref (length (store st)))
                (st\<lparr>store := store st @ [auto_detect (deref st a)]\<rparr>))),
      snd (post_payment env this (Ref (length (store st)))
                (st\<lparr>store := store st @ [auto_detect (deref st a)]\<rparr>)))"
  by (simp add: pay_def read_input_def alloc_def deref_def convert_amount_def case_prod_beta)

lemma pay_JsonText_object:
  assumes "JSON_parse env s = Some (VObj fs)"
  shows "pay env this (JsonText s) st =
     (Normal (fst (post_payment env this (Ref (length (store st)))
                (st\<lparr>store := store st @ [auto_detect fs]\<rparr>))),
      snd (post_payment env this (Ref (length (store st)))
                (st\<lparr>store := store st @ [auto_detect fs]\<rparr>)))"
  using assms
  by (simp add: pay_def read_input_def alloc_def deref_def convert_amount_def case_prod_beta)

lemma post_payment_state:
  "snd (post_payment env this b st) =
     st\<lparr>requests := requests st @
        [\<lparr>endpoint = base_url this @ ''/api/v1/transactions'', payload = value_of b st,
          request_headers = headers this\<rparr>]\<rparr>"
  by (simp add: post_payment_def axios_post_def Let_def
      split: transport_outcome.splits option.splits prod.splits axios_result.splits)

lemma requests_read_input:
  "read_input env input st = Some (b, st1) \<Longrightarrow> requests st1 = requests st"
  by (auto simp: read_input_def alloc_def
      split: pay_input.splits option.splits jsval.splits)

lemma requests_convert_amount:
  "convert_amount b st1 = Normal st2 \<Longrightarrow> requests st2 = requests st1"
  by (auto simp: convert_amount_def split: binding.splits completion.splits)

lemma post_payment_rejected:
  assumes "respond env (requests st)
             \<lparr>endpoint = base_url this @ ''/api/v1/transactions'', payload = value_of b st,
              request_headers = headers this\<rparr> = Answered code body"
    and "code < 200 \<or> 300 \<le> code"
  shows "fst (post_payment env this b st) =
           VObj [(''error'', VStr (''Error del servidor: '' @ show_nat code)),
                 (''details'', body)]"
  using assms by (auto simp: post_payment_def axios_post_def Let_def)

lemma show_nat_500: "show_nat 500 = ''500''"
  by (simp add: show_nat.simps)

text \<open>
  C6: for every string that \<open>JSON.parse\<close> rejects, \<open>pay\<close> returns (it does not throw)
  the object whose only field is \<open>error\<close>, with the client's Spanish text for "the
  data provided is not valid JSON", and the state is the one before the call: no request
  has been handed to the HTTP library.
\<close>

theorem pay_invalid_json:
  assumes "JSON_parse env s = None"
  shows "pay env this (JsonText s) st =
           (Normal (VObj [(''error'',
              VStr (''Los datos proporcionados no son un JSON v'' @ [CHR 0xE1] @ ''lido''))]), st)"
  using assms by (simp add: pay_def read_input_def)

theorem pay_invalid_json_witness:
  "pay sample_env (new_CuboClient test_apiKey default_url) (JsonText ''not json'')
       \<lparr>store = [], requests = []\<rparr> =
     (Normal (VObj [(''error'',
        VStr (''Los datos proporcionados no son un JSON v'' @ [CHR 0xE1] @ ''lido''))]),
      \<lparr>store = [], requests = []\<rparr>)"
  using pay_invalid_json [of sample_env "''not json''"]
  by (simp add: sample_env_def sample_parse_def)

text \<open>
  C7, as the code has it: whenever the request posted by \<open>pay\<close> is answered with a status
  code outside 200..299, \<open>pay\<close> returns
  \<open>{ error: "Error del servidor: <status code>", details: <response body> }\<close>, the code
  written in decimal digits.
\<close>

theorem pay_server_error:
  assumes "pay env this input st = (c, st')"
    and "requests st' = requests st @ [rq]"
    and "respond env (requests st) rq = Answered code body"
    and "code < 200 \<or> 300 \<le> code"
  shows "c = Normal (VObj [(''error'', VStr (''Error del servidor: '' @ show_nat code)),
                           (''details'', body)])"
proof (cases "read_input env input st")
  case None
  with assms(1,2) show ?thesis
    by (simp add: pay_def)
next
  case (Some bs)
  obtain b st1 where bs: "bs = (b, st1)"
    by (cases bs)
  have r1: "requests st1 = requests st"
    using Some bs by (simp add: requests_read_input)
  show ?thesis
  proof (cases "convert_amount b st1")
    case (Throw e)
    with Some bs assms(1,2) r1 show ?thesis
      by (simp add: pay_def)
  next
    case (Normal st2)
    have r2: "requests st2 = requests st"
      using Normal r1 by (simp add: requests_convert_amount)
    let ?rq = "\<lparr>endpoint = base_url this @ ''/api/v1/transactions'', payload = value_of b st2,
                 request_headers = headers this\<rparr>"
    have p: "pay env this input st =
               (Normal (fst (post_payment env this b st2)), snd (post_payment env this b st2))"
      using Some bs Normal by (simp add: pay_def split: prod.splits)
    have "requests st' = requests st @ [?rq]"
      using p assms(1) r2 by (simp add: post_payment_state)
    then have "rq = ?rq"
      using assms(2) by simp
    then have "fst (post_payment env this b st2) =
                 VObj [(''error'', VStr (''Error del servidor: '' @ show_nat code)),
                       (''details'', body)]"
      using assms(3,4) r2 by (simp add: post_payment_rejected)
    then show ?thesis
      using p assms(1) by simp
  qed
qed

theorem pay_server_error_witness:
  "pay sample_env (new_CuboClient test_apiKey default_url) (ObjectRef 0)
       \<lparr>store = [test_paymentData], requests = []\<rparr> =
     (Normal (VObj [(''error'', VStr ''Error del servidor: 500''),
                    (''details'', VObj [(''message'', VStr ''Internal Server Error'')])]),
      \<lparr>store = [test_paymentData, test_paymentData],
       requests = [\<lparr>endpoint = ''https://api.cubo.com/api/v1/transactions'',
                     payload = VObj test_paymentData,
                     request_headers = [(''X-API-KEY'', test_apiKey),
                                        (''Content-Type'', ''application/json'')]\<rparr>]\<rparr>)"
proof -
  let ?st = "\<lparr>store = [test_paymentData], requests = []\<rparr>"
  let ?rq = "\<lparr>endpoint = ''https://api.cubo.com/api/v1/transactions'',
               payload = VObj test_paymentData,
               request_headers = [(''X-API-KEY'', test_apiKey),
                                  (''Content-Type'', ''application/json'')]\<rparr>"
  let ?run = "pay sample_env (new_CuboClient test_apiKey default_url) (ObjectRef 0) ?st"
  have s: "snd ?run = \<lparr>store = [test_paymentData, test_paymentData], requests = [?rq]\<rparr>"
    by (simp add: pay_ObjectRef post_payment_state value_of_def deref_def auto_detect_def
        field_def test_paymentData_def trunc_def new_CuboClient_def default_url_def)
  have a: "respond sample_env (requests ?st) ?rq =
             Answered 500 (VObj [(''message'', VStr ''Internal Server Error'')])"
    by (simp add: sample_env_def sample_network_def)
  have "fst ?run = Normal (VObj [(''error'', VStr (''Error del servidor: '' @ show_nat 500)),
                   (''details'', VObj [(''message'', VStr ''Internal Server Error'')])])"
  proof (rule pay_server_error)
    show "?run = (fst ?run, snd ?run)"
      by simp
    show "requests (snd ?run) = requests ?st @ [?rq]"
      using s by simp
    show "respond sample_env (requests ?st) ?rq =
            Answered 500 (VObj [(''message'', VStr ''Internal Server Error'')])"
      by (rule a)
    show "(500::nat) < 200 \<or> (300::nat) \<le> 500"
      by simp
  qed
  then have "fst ?run = Normal (VObj [(''error'', VStr ''Error del servidor: 500''),
                   (''details'', VObj [(''message'', VStr ''Internal Server Error'')])])"
    by (simp add: show_nat_500)
  with s show ?thesis
    by (simp add: prod_eq_iff)
qed

text \<open>
  C7 as stated fails: for the status 500 the \<open>error\<close> field is \<open>"Error del servidor:
  500"\<close>, not \<open>"Server error: 500"\<close>.
\<close>

theorem pay_server_error_counterexample:
  "fst (pay sample_env (new_CuboClient test_apiKey default_url) (ObjectRef 0)
          \<lparr>store = [test_paymentData], requests = []\<rparr>) =
     Normal (VObj [(''error'', VStr ''Error del servidor: 500''),
                   (''details'', VObj [(''message'', VStr ''Internal Server Error'')])])
   \<and> fst (pay sample_env (new_CuboClient test_apiKey default_url) (ObjectRef 0)
          \<lparr>store = [test_paymentData], requests = []\<rparr>) \<noteq>
     Normal (VObj [(''error'', VStr ''Server error: 500''),
                   (''details'', VObj [(''message'', VStr ''Internal Server Error'')])])"
proof -
  have "fst (pay sample_env (new_CuboClient test_apiKey default_url) (ObjectRef 0)
          \<lparr>store = [test_paymentData], requests = []\<rparr>) =
     Normal (VObj [(''error'', VStr ''Error del servidor: 500''),
                   (''details'', VObj [(''message'', VStr ''Internal Server Error'')])])"
    by (simp add: pay_ObjectRef post_payment_def axios_post_def sample_env_def
        sample_network_def new_CuboClient_def default_url_def show_nat_500 Let_def)
  then show ?thesis
    by simp
qed

text \<open>
  C8: for every object of the store passed to \<open>pay\<close>, the store after the call is the
  store before it followed by one new object, the copy with the amount adjusted; the
  caller's object is the one it was, and the payload of the request is the copy.
\<close>

theorem pay_copies_input:
  assumes "a < length (store st)"
  shows "store (snd (pay env this (ObjectRef a) st)) = store st @ [auto_detect (store st ! a)]
         \<and> store (snd (pay env this (ObjectRef a) st)) ! a = store st ! a
         \<and> payload (last (requests (snd (pay env this (ObjectRef a) st)))) =
             VObj (auto_detect (store st ! a))"
  using assms
  by (simp add: pay_ObjectRef post_payment_state value_of_def deref_def nth_append)

theorem pay_copies_input_witness:
  "store (snd (pay sample_env (new_CuboClient test_apiKey default_url) (ObjectRef 0)
      \<lparr>store = [[(''description'', VStr ''Test API''), (''amount'', VNum (Finite (21 / 2)))]],
       requests = []\<rparr>)) =
     [[(''description'', VStr ''Test API''), (''amount'', VNum (Finite (21 / 2)))],
      [(''description'', VStr ''Test API''), (''amount'', VNum (Finite 1050))]]
   \<and> payload (last (requests (snd (pay sample_env (new_CuboClient test_apiKey default_url)
      (ObjectRef 0)
      \<lparr>store = [[(''description'', VStr ''Test API''), (''amount'', VNum (Finite (21 / 2)))]],
       requests = []\<rparr>)))) =
     VObj [(''description'', VStr ''Test API''), (''amount'', VNum (Finite 1050))]"
  using pay_copies_input [of 0
      "\<lparr>store = [[(''description'', VStr ''Test API''), (''amount'', VNum (Finite (21 / 2)))]],
        requests = []\<rparr>" sample_env "new_CuboClient test_apiKey default_url"]
  by (simp add: auto_detect_dollars)

text \<open>
  C5: for every payload processed by \<open>pay\<close> (the object passed, or the object that the
  string passed decodes to) one request is posted, whose payload has the same properties
  in the same order; a finite \<open>amount\<close> that is not an integer is replaced by
  \<open>convertCentv(amount)\<close>, a finite integer \<open>amount\<close> is sent as it is, and every other
  property is sent as it is. In the sample runs 10.5 is sent as 1050 and 100 as 100.
\<close>

theorem pay_amount_auto_detection:
  assumes "input = ObjectRef a \<and> a < length (store st) \<and> fs = store st ! a
           \<or> input = JsonText s \<and> JSON_parse env s = Some (VObj fs)"
  shows "requests (snd (pay env this input st)) =
           requests st @ [\<lparr>endpoint = base_url this @ ''/api/v1/transactions'',
                           payload = VObj (auto_detect fs),
                           request_headers = headers this\<rparr>]
         \<and> (\<forall>q. field fs ''amount'' = VNum (Finite q) \<longrightarrow>
               field (auto_detect fs) ''amount'' =
                 VNum (if q \<in> \<int> then Finite q else convertCentv (Finite q)))
         \<and> (\<forall>k. k \<noteq> ''amount'' \<longrightarrow> map_of (auto_detect fs) k = map_of fs k)
         \<and> map fst (auto_detect fs) = map fst fs"
proof -
  have "requests (snd (pay env this input st)) =
           requests st @ [\<lparr>endpoint = base_url this @ ''/api/v1/transactions'',
                           payload = VObj (auto_detect fs),
                           request_headers = headers this\<rparr>]"
    using assms
    by (auto simp: pay_ObjectRef pay_JsonText_object post_payment_state value_of_def deref_def)
  moreover have "field (auto_detect fs) ''amount'' =
                   VNum (if q \<in> \<int> then Finite q else convertCentv (Finite q))"
    if "field fs ''amount'' = VNum (Finite q)" for q
    using that
    by (cases "q \<in> \<int>")
       (simp_all add: auto_detect_integral auto_detect_fractional field_def update_conv')
  ultimately show ?thesis
    by (simp add: auto_detect_other_fields auto_detect_keys)
qed

theorem pay_amount_auto_detection_witness:
  "requests (snd (pay sample_env (new_CuboClient test_apiKey default_url) (ObjectRef 0)
      \<lparr>store = [[(''description'', VStr ''Test API''), (''amount'', VNum (Finite (21 / 2)))]],
       requests = []\<rparr>)) =
     [\<lparr>endpoint = ''https://api.cubo.com/api/v1/transactions'',
       payload = VObj [(''description'', VStr ''Test API''), (''amount'', VNum (Finite 1050))],
       request_headers = [(''X-API-KEY'', test_apiKey),
                          (''Content-Type'', ''application/json'')]\<rparr>]
   \<and> requests (snd (pay sample_env (new_CuboClient test_apiKey default_url) (ObjectRef 0)
      \<lparr>store = [test_paymentData], requests = []\<rparr>)) =
     [\<lparr>endpoint = ''https://api.cubo.com/api/v1/transactions'',
       payload = VObj test_paymentData,
       request_headers = [(''X-API-KEY'', test_apiKey),
                          (''Content-Type'', ''application/json'')]\<rparr>]"
  using pay_amount_auto_detection [of "ObjectRef 0" 0
      "\<lparr>store = [[(''description'', VStr ''Test API''), (''amount'', VNum (Finite (21 / 2)))]],
        requests = []\<rparr>"
      "[(''description'', VStr ''Test API''), (''amount'', VNum (Finite (21 / 2)))]"
      "''''" sample_env "new_CuboClient test_apiKey default_url"]
    pay_amount_auto_detection [of "ObjectRef 0" 0
      "\<lparr>store = [test_paymentData], requests = []\<rparr>" test_paymentData
      "''''" sample_env "new_CuboClient test_apiKey default_url"]
  by (simp add: auto_detect_dollars auto_detect_test_paymentData new_CuboClient_def
      default_url_def)

section \<open>Probing several URLs\<close>

text \<open>The loop, one round at a time.\<close>

lemma probe_all_results:
  "probe_all env key dat urls acc st =
     (acc @ fst (probe_all env key dat urls [] st), snd (probe_all env key dat urls [] st))"
proof (induction urls arbitrary: acc st)
  case Nil
  show ?case by simp
next
  case (Cons u urls)
  obtain entry st' where p: "probe env key dat u st = (entry, st')"
    by (cases "probe env key dat u st")
  show ?case
    using Cons.IH [of "acc @ [entry]" st'] Cons.IH [of "[entry]" st'] p by simp
qed

lemma probe_all_Cons:
  "probe_all env key dat (u # urls) [] st =
     (fst (probe env key dat u st) # fst (probe_all env key dat urls [] (snd (probe env key dat u st))),
      snd (probe_all env key dat urls [] (snd (probe env key dat u st))))"
  using probe_all_results [of env key dat urls "[fst (probe env key dat u st)]"
      "snd (probe env key dat u st)"]
  by (simp add: case_prod_beta)

lemma probe_all_append:
  "probe_all env key dat (xs @ ys) [] st =
     (fst (probe_all env key dat xs [] st)
        @ fst (probe_all env key dat ys [] (snd (probe_all env key dat xs [] st))),
      snd (probe_all env key dat ys [] (snd (probe_all env key dat xs [] st))))"
proof (induction xs arbitrary: st)
  case Nil
  show ?case by simp
next
  case (Cons x xs)
  show ?case
    by (simp only: append_Cons probe_all_Cons Cons.IH fst_conv snd_conv)
qed

lemma probe_entry:
  "fst (probe env key dat u st) =
     (case fst (pay env (new_CuboClient key u) (ObjectRef dat) st) of
        Throw e \<Rightarrow> \<lparr>url = u, response = None, result = None, error = Some (message_of env e)\<rparr>
      | Normal r \<Rightarrow>
          (case handleResponse r of
             Throw e \<Rightarrow>
               \<lparr>url = u, response = None, result = None, error = Some (message_of env e)\<rparr>
           | Normal res \<Rightarrow> \<lparr>url = u, response = Some r, result = Some res, error = None\<rparr>))"
  by (simp add: probe_def split: prod.splits completion.splits)

lemma probe_url: "url (fst (probe env key dat u st)) = u"
  by (simp add: probe_def split: prod.splits completion.splits)

lemma probe_state:
  "snd (probe env key dat u st) = snd (pay env (new_CuboClient key u) (ObjectRef dat) st)"
  by (simp add: probe_def split: prod.splits completion.splits)

lemma probe_requests:
  "requests (snd (probe env key dat u st)) =
     requests st @ [\<lparr>endpoint = u @ ''/api/v1/transactions'',
                     payload = VObj (auto_detect (deref st dat)),
                     request_headers = [(''X-API-KEY'', key),
                                        (''Content-Type'', ''application/json'')]\<rparr>]"
  by (simp add: probe_state pay_ObjectRef post_payment_state value_of_def deref_def
      new_CuboClient_def)

lemma probe_all_urls: "map url (fst (probe_all env key dat urls [] st)) = urls"
  by (induction urls arbitrary: st) (simp_all add: probe_all_Cons probe_url del: probe_all.simps(2))

lemma probe_all_endpoints:
  "map endpoint (requests (snd (probe_all env key dat urls [] st))) =
     map endpoint (requests st) @ map (\<lambda>u. u @ ''/api/v1/transactions'') urls"
  by (induction urls arbitrary: st)
     (simp_all add: probe_all_Cons probe_requests del: probe_all.simps(2))

lemma probe_all_nth:
  assumes "i < length urls"
  shows "fst (probe_all env key dat urls [] st) ! i =
           fst (probe env key dat (urls ! i) (snd (probe_all env key dat (take i urls) [] st)))"
proof -
  have len: "length (fst (probe_all env key dat (take i urls) [] st)) = i"
    using probe_all_urls [of env key dat "take i urls" st] assms
    by (metis length_map length_take min.absorb2 less_imp_le)
  have "urls = take i urls @ (urls ! i # drop (Suc i) urls)"
    using assms by (simp add: id_take_nth_drop)
  then have "fst (probe_all env key dat urls [] st) =
               fst (probe_all env key dat (take i urls) [] st)
               @ fst (probe_all env key dat (urls ! i # drop (Suc i) urls) []
                        (snd (probe_all env key dat (take i urls) [] st)))"
    using probe_all_append [of env key dat "take i urls" "urls ! i # drop (Suc i) urls" st]
    by simp
  then show ?thesis
    using len by (simp add: probe_all_Cons nth_append del: probe_all.simps(2))
qed

text \<open>
  C9: \<open>testMultipleUrls\<close> returns one entry for each URL, in the order of the list; one
  request is posted to each URL in that order, whatever the earlier attempts gave; and the
  entry of a URL is the one of its own attempt, made in the state that the attempts before
  it left: the error message alone when \<open>pay\<close> or \<open>handleResponse\<close> throws, the
  response and the result otherwise.
\<close>

theorem testMultipleUrls_probes_every_url:
  "map url (fst (testMultipleUrls env this dat urls st)) = urls
   \<and> map endpoint (requests (snd (testMultipleUrls env this dat urls st))) =
       map endpoint (requests st) @ map (\<lambda>u. u @ ''/api/v1/transactions'') urls
   \<and> (\<forall>i < length urls.
         fst (testMultipleUrls env this dat urls st) ! i =
           (case fst (pay env (new_CuboClient (apiKey this) (urls ! i)) (ObjectRef dat)
                        (snd (testMultipleUrls env this dat (take i urls) st))) of
              Throw e \<Rightarrow>
                \<lparr>url = urls ! i, response = None, result = None,
                 error = Some (message_of env e)\<rparr>
            | Normal r \<Rightarrow>
                (case handleResponse r of
                   Throw e \<Rightarrow>
                     \<lparr>url = urls ! i, response = None, result = None,
                      error = Some (message_of env e)\<rparr>
                 | Normal res \<Rightarrow>
                     \<lparr>url = urls ! i, response = Some r, result = Some res, error = None\<rparr>)))"
  unfolding testMultipleUrls_def
  by (simp add: probe_all_urls probe_all_endpoints probe_all_nth probe_entry)

theorem testMultipleUrls_probes_every_url_witness:
  "map url (fst (testMultipleUrls sample_env (new_CuboClient test_apiKey default_url) 0
      urlsToTry \<lparr>store = [test_paymentData], requests = []\<rparr>)) = urlsToTry
   \<and> map endpoint (requests (snd (testMultipleUrls sample_env
      (new_CuboClient test_apiKey default_url) 0
      urlsToTry \<lparr>store = [test_paymentData], requests = []\<rparr>))) =
     [''https://api.cubo.com/api/v1/transactions'',
      ''https://api.cubopago.com/api/v1/transactions'',
      ''https://cubopago.com/api/v1/transactions'',
      ''https://api-sandbox.cubopago.com/api/v1/transactions'',
      ''https://sandbox.cubopago.com/api/v1/transactions'']
   \<and> fst (testMultipleUrls sample_env (new_CuboClient test_apiKey default_url) 0
      urlsToTry \<lparr>store = [test_paymentData], requests = []\<rparr>) ! 1 =
     \<lparr>url = ''https://api.cubopago.com'', response = None, result = None,
      error = Some ''Cannot read properties of null''\<rparr>
   \<and> fst (testMultipleUrls sample_env (new_CuboClient test_apiKey default_url) 0
      urlsToTry \<lparr>store = [test_paymentData], requests = []\<rparr>) ! 2 =
     \<lparr>url = ''https://cubopago.com'',
      response = Some (VObj [(''status'', VStr ''SUCCEEDED''), (''referenceId'', VStr ''r1''),
        (''authorizationCode'', VStr ''a1''), (''processedAt'', VStr ''t1'')]),
      result = Some \<lparr>success = True, message = None, reference_id = Some (VStr ''r1''),
        authorization_code = Some (VStr ''a1''), processed_at = Some (VStr ''t1'')\<rparr>,
      error = None\<rparr>"
proof -
  let ?c = "new_CuboClient test_apiKey default_url"
  let ?st = "\<lparr>store = [test_paymentData], requests = []\<rparr>"
  note main = testMultipleUrls_probes_every_url [of sample_env ?c 0 urlsToTry ?st]
  note nth = main [THEN conjunct2, THEN conjunct2, rule_format]
  have l1: "(1::nat) < length urlsToTry" and l2: "(2::nat) < length urlsToTry"
    by (simp_all add: urlsToTry_def)
  have key: "apiKey ?c = test_apiKey"
    by (simp add: new_CuboClient_def)
  have p1: "fst (pay sample_env (new_CuboClient test_apiKey (urlsToTry ! 1)) (ObjectRef 0)
              (snd (testMultipleUrls sample_env ?c 0 (take 1 urlsToTry) ?st))) = Normal VNull"
    by (simp add: pay_ObjectRef post_payment_def axios_post_def sample_env_def
        sample_network_def new_CuboClient_def urlsToTry_def Let_def)
  have p2: "fst (pay sample_env (new_CuboClient test_apiKey (urlsToTry ! 2)) (ObjectRef 0)
              (snd (testMultipleUrls sample_env ?c 0 (take 2 urlsToTry) ?st))) =
            Normal (VObj [(''status'', VStr ''SUCCEEDED''), (''referenceId'', VStr ''r1''),
              (''authorizationCode'', VStr ''a1''), (''processedAt'', VStr ''t1'')])"
    by (simp add: pay_ObjectRef post_payment_def axios_post_def sample_env_def
        sample_network_def new_CuboClient_def urlsToTry_def Let_def)
  have e1: "fst (testMultipleUrls sample_env ?c 0 urlsToTry ?st) ! 1 =
     \<lparr>url = ''https://api.cubopago.com'', response = None, result = None,
      error = Some ''Cannot read properties of null''\<rparr>"
    using nth [OF l1] unfolding key p1
    by (simp add: handleResponse_def sample_env_def urlsToTry_def)
  have e2: "fst (testMultipleUrls sample_env ?c 0 urlsToTry ?st) ! 2 =
     \<lparr>url = ''https://cubopago.com'',
      response = Some (VObj [(''status'', VStr ''SUCCEEDED''), (''referenceId'', VStr ''r1''),
        (''authorizationCode'', VStr ''a1''), (''processedAt'', VStr ''t1'')]),
      result = Some \<lparr>success = True, message = None, reference_id = Some (VStr ''r1''),
        authorization_code = Some (VStr ''a1''), processed_at = Some (VStr ''t1'')\<rparr>,
      error = None\<rparr>"
    using nth [OF l2] unfolding key p2
    by (simp add: handleResponse_def field_def urlsToTry_def)
  from main have "map url (fst (testMultipleUrls sample_env ?c 0 urlsToTry ?st)) = urlsToTry"
    and "map endpoint (requests (snd (testMultipleUrls sample_env ?c 0 urlsToTry ?st))) =
       map endpoint (requests ?st) @ map (\<lambda>u. u @ ''/api/v1/transactions'') urlsToTry"
    by blast+
  with e1 e2 show ?thesis
    by (simp add: urlsToTry_def)
qed

end
